theory Spec2Isabelle
  imports Complex_Main "HOL-Library.AList"
begin

section \<open>Errors\<close>

text \<open>
  The server raises three kinds of exception: a plain \<^verbatim>\<open>new Error(msg)\<close>, the
  \<^verbatim>\<open>ZodError\<close> thrown by \<^verbatim>\<open>schema.parse\<close>, and whatever \<^verbatim>\<open>axios.get\<close> throws
  when an upstream request fails. Every throw of the source is a value here.
\<close>

datatype error = Error string | ZodError | AxiosError

definition InvalidExpiry :: error where
  "InvalidExpiry = Error ''Expiry time must be a future timestamp.''"

definition InvalidBounds :: error where
  "InvalidBounds = Error ''Invalid map bounds provided.''"

definition EmptyQuery :: error where
  "EmptyQuery = Error ''Search query cannot be empty.''"

section \<open>The cache store (server/storage.ts)\<close>

text \<open>
  \<^verbatim>\<open>MemStorage\<close> keeps a JavaScript \<^verbatim>\<open>Map<string, Cache>\<close>. A \<^verbatim>\<open>Map\<close> remembers
  insertion order, \<^verbatim>\<open>set\<close> on a present key replaces the value in place and on a new
  key appends, \<^verbatim>\<open>delete\<close> removes the key: an association list with
  \<^const>\<open>map_of\<close>, \<^const>\<open>AList.update\<close> and \<^const>\<open>AList.delete\<close>. The keys of a
  \<^verbatim>\<open>Map\<close> are pairwise different; that is the invariant \<open>distinct (map fst cache)\<close>.

  Timestamps are milliseconds as \<^verbatim>\<open>Date.now()\<close> yields them, an \<^typ>\<open>int\<close>. The source
  stores \<^verbatim>\<open>expiryTime.toString()\<close> and compares \<^verbatim>\<open>Number(entry.expires)\<close>; on a
  number that round trip is the identity, so the field holds the number. Every
  \<^verbatim>\<open>Date.now()\<close> of the source is the argument \<open>now\<close> of the model. The
  \<^verbatim>\<open>console.log\<close> lines and the counter \<^verbatim>\<open>expiredCount\<close> that only feeds them are
  left out.
\<close>

record 'v Cache =
  cache_id :: nat
  cache_key :: string
  cache_value :: 'v
  expires :: int

type_synonym 'v MemStorage = "(string \<times> 'v Cache) list"

definition getCachedData :: "'v MemStorage \<Rightarrow> int \<Rightarrow> string \<Rightarrow> 'v option \<times> 'v MemStorage" where
  "getCachedData cache now key =
     (case map_of cache key of
        None \<Rightarrow> (None, cache)
      | Some cacheEntry \<Rightarrow>
          if expires cacheEntry < now then (None, AList.delete key cache)
          else (Some (cache_value cacheEntry), cache))"

definition cacheData ::
  "'v MemStorage \<Rightarrow> int \<Rightarrow> string \<Rightarrow> 'v \<Rightarrow> int \<Rightarrow> (error + unit) \<times> 'v MemStorage" where
  "cacheData cache now key v expiryTime =
     (if expiryTime \<le> now then (Inl InvalidExpiry, cache)
      else (Inr (),
            AList.update key
              \<lparr>cache_id = length cache + 1, cache_key = key, cache_value = v,
               expires = expiryTime\<rparr> cache))"

definition clearExpiredCache :: "'v MemStorage \<Rightarrow> int \<Rightarrow> 'v MemStorage" where
  "clearExpiredCache cache now =
     fold (\<lambda>(key, entry) c. if expires entry < now then AList.delete key c else c)
       cache cache"

section \<open>JavaScript numbers and strings\<close>

text \<open>
  A JavaScript number is a real or one of the three values that are not finite.
  Arithmetic on the finite ones is the arithmetic of \<^typ>\<open>real\<close>: the rounding error of
  IEEE doubles is outside the model. \<^verbatim>\<open>toFixed\<close> and the comparisons of the source are
  exact on doubles, and the coordinates at which a claim is refuted below are binary
  fractions, which a double holds exactly. The routes only compute with numbers that
  passed \<^verbatim>\<open>boundsSchema\<close>, which are finite.

  A string is the list of its code units; \<^typ>\<open>char\<close> has 8 bits, so the model keeps
  the code units below 256.
\<close>

datatype number = Finite real | NaN | PosInfinity | NegInfinity

text \<open>
  \<^verbatim>\<open>Number.prototype.toFixed(f)\<close> as ECMAScript defines it for a finite \<open>x\<close> below
  \<open>10\<^sup>2\<^sup>1\<close> (the routes call it on coordinates of at most 180 in absolute value):
  if \<open>x < 0\<close> the result starts with \<^verbatim>\<open>-\<close> and \<open>x\<close> becomes \<open>- x\<close>; \<open>n\<close> is the integer
  for which \<open>n / 10\<^sup>f - x\<close> is closest to zero, the larger one of two; its decimal
  digits are padded with zeros on the left to \<open>f + 1\<close> characters and a point is set
  before the last \<open>f\<close>.
\<close>

definition digitChar :: "nat \<Rightarrow> char" where
  "digitChar d = ''0123456789'' ! d"

function decimalDigits :: "nat \<Rightarrow> string" where
  "decimalDigits n =
     (if n < 10 then [digitChar n] else decimalDigits (n div 10) @ [digitChar (n mod 10)])"
  by pat_completeness auto
termination
  by (relation "measure id") auto

declare decimalDigits.simps [simp del]

definition fixedDigits :: "nat \<Rightarrow> nat \<Rightarrow> string" where
  "fixedDigits n f =
     (let m = (if n = 0 then ''0'' else decimalDigits n) in
      if f \<noteq> 0 then
        (let k = length m;
             z = (if k \<le> f then replicate (f + 1 - k) CHR ''0'' else []);
             m2 = z @ m;
             k2 = (if k \<le> f then f + 1 else k)
         in take (k2 - f) m2 @ ''.'' @ drop (k2 - f) m2)
      else m)"

definition toFixed :: "real \<Rightarrow> nat \<Rightarrow> string" where
  "toFixed x f =
     (if x < 0 then ''-'' @ fixedDigits (nat \<lfloor>- x * 10 ^ f + 1 / 2\<rfloor>) f
      else fixedDigits (nat \<lfloor>x * 10 ^ f + 1 / 2\<rfloor>) f)"

text \<open>
  \<^verbatim>\<open>String.prototype.trim\<close> removes white space and line terminators from both ends.
  Below 256 these are the code units 9 to 13, 32 and 160.
\<close>

definition isWhiteSpace :: "char \<Rightarrow> bool" where
  "isWhiteSpace c = (of_char c \<in> {9, 10, 11, 12, 13, 32, 160 :: nat})"

definition trim :: "string \<Rightarrow> string" where
  "trim s = rev (dropWhile isWhiteSpace (rev (dropWhile isWhiteSpace s)))"

text \<open>
  \<^verbatim>\<open>Math.atan2(y, x)\<close> on finite arguments: the angle of the point \<open>(x, y)\<close> in
  \<open>(-\<pi>, \<pi>]\<close>, and 0 at the origin.
\<close>

definition atan2 :: "real \<Rightarrow> real \<Rightarrow> real" where
  "atan2 y x =
     (if 0 < x then arctan (y / x)
      else if x < 0 \<and> 0 \<le> y then arctan (y / x) + pi
      else if x < 0 \<and> y < 0 then arctan (y / x) - pi
      else if 0 < y then pi / 2
      else if y < 0 then - (pi / 2)
      else 0)"

section \<open>The Wikipedia client (server/api/wikipedia.ts)\<close>

text \<open>The types of the client (\<^verbatim>\<open>@/types\<close>). Fields the server never sets are left out.\<close>

record Landmark =
  pageid :: int
  title :: string
  lat :: real
  lon :: real
  description :: "string option"
  thumbnail :: "string option"
  distance :: "real option"

record WikiGeosearchResult =
  gs_pageid :: int
  gs_ns :: int
  gs_title :: string
  gs_lat :: real
  gs_lon :: real
  gs_dist :: real
  gs_primary :: string

record Thumbnail =
  source :: string
  width :: int
  height :: int

record WikiLandmarkDetails =
  details_pageid :: int
  details_title :: string
  details_extract :: "string option"
  details_thumbnail :: "Thumbnail option"

record WikiCoordinates =
  coord_lat :: real
  coord_lon :: real

record NominatimPlace =
  place_lat :: string
  place_lon :: string
  place_display_name :: string

text \<open>
  The remote services are parameters of the model: each field answers one kind of
  \<^verbatim>\<open>axios.get\<close>. \<open>Inl\<close> is a request that throws; \<open>Inr None\<close> is a response without
  the part the client reads (\<^verbatim>\<open>response.data?.query?.geosearch\<close> and the like are
  undefined); \<open>Inr (Some x)\<close> is that part. Of a search hit the client reads only the
  page id; of a coordinates page the first coordinate pair and the title. Every request
  issued is recorded as an \<open>UpstreamCall\<close>, in the order the requests start.
\<close>

record Upstream =
  geosearch :: "real \<Rightarrow> real \<Rightarrow> real \<Rightarrow> error + WikiGeosearchResult list option"
  pageDetails :: "int \<Rightarrow> error + WikiLandmarkDetails option"
  wikiSearch :: "string \<Rightarrow> error + int list option"
  pageCoordinates :: "int \<Rightarrow> error + (WikiCoordinates \<times> string) option"
  nominatimSearch :: "string \<Rightarrow> error + NominatimPlace list option"

datatype UpstreamCall =
    GeosearchCall real real real
  | DetailsCall int
  | SearchCall string
  | CoordinatesCall int
  | NominatimCall string

definition MAX_RADIUS :: real where
  "MAX_RADIUS = 10000"

definition deg2rad :: "real \<Rightarrow> real" where
  "deg2rad deg = deg * (pi / 180)"

definition haversineDistance :: "real \<Rightarrow> real \<Rightarrow> real \<Rightarrow> real \<Rightarrow> real" where
  "haversineDistance lat1 lon1 lat2 lon2 =
     (let R = 6371;
          dLat = deg2rad (lat2 - lat1);
          dLon = deg2rad (lon2 - lon1);
          a = sin (dLat / 2) * sin (dLat / 2) +
              cos (deg2rad lat1) * cos (deg2rad lat2) * sin (dLon / 2) * sin (dLon / 2);
          c = 2 * atan2 (sqrt a) (sqrt (1 - a))
      in R * c)"

definition toLandmark :: "WikiGeosearchResult \<Rightarrow> Landmark" where
  "toLandmark result =
     \<lparr>pageid = gs_pageid result, title = gs_title result, lat = gs_lat result,
      lon = gs_lon result, description = None, thumbnail = None,
      distance = Some (gs_dist result / 1000)\<rparr>"

definition fetchLandmarks ::
  "Upstream \<Rightarrow> real \<Rightarrow> real \<Rightarrow> real \<Rightarrow> real \<Rightarrow> (error + Landmark list) \<times> UpstreamCall list" where
  "fetchLandmarks up north south east west =
     (if north < south \<or> east < west then (Inl InvalidBounds, [])
      else
        let centerLat = (north + south) / 2;
            centerLon = (east + west) / 2;
            radius = min (max (haversineDistance centerLat centerLon north centerLon)
                              (haversineDistance centerLat centerLon centerLat east) * 1000)
                         MAX_RADIUS;
            calls = [GeosearchCall centerLat centerLon radius]
        in case geosearch up centerLat centerLon radius of
             Inl e \<Rightarrow> (Inl e, calls)
           | Inr None \<Rightarrow> (Inr [], calls)
           | Inr (Some results) \<Rightarrow> (Inr (map toLandmark results), calls))"

definition fetchLandmarkDetails ::
  "Upstream \<Rightarrow> int \<Rightarrow> (error + WikiLandmarkDetails) \<times> UpstreamCall list" where
  "fetchLandmarkDetails up pageId =
     (case pageDetails up pageId of
        Inl e \<Rightarrow> (Inl e, [DetailsCall pageId])
      | Inr (Some page) \<Rightarrow>
          (Inr \<lparr>details_pageid = details_pageid page, details_title = details_title page,
                details_extract = details_extract page, details_thumbnail = details_thumbnail page\<rparr>,
           [DetailsCall pageId])
      | Inr None \<Rightarrow>
          (Inr \<lparr>details_pageid = pageId, details_title = [], details_extract = None,
                details_thumbnail = None\<rparr>,
           [DetailsCall pageId]))"

definition searchWikipedia ::
  "Upstream \<Rightarrow> string \<Rightarrow> (error + WikiGeosearchResult list) \<times> UpstreamCall list" where
  "searchWikipedia up query =
     (if query = [] \<or> length (trim query) = 0 then (Inl EmptyQuery, [])
      else
        case wikiSearch up query of
          Inl e \<Rightarrow> (Inl e, [SearchCall query])
        | Inr None \<Rightarrow> (Inr [], [SearchCall query])
        | Inr (Some []) \<Rightarrow> (Inr [], [SearchCall query])
        | Inr (Some (pageId # _)) \<Rightarrow>
            (case pageCoordinates up pageId of
               Inl e \<Rightarrow> (Inl e, [SearchCall query, CoordinatesCall pageId])
             | Inr None \<Rightarrow> (Inr [], [SearchCall query, CoordinatesCall pageId])
             | Inr (Some (coords, t)) \<Rightarrow>
                 (Inr [\<lparr>gs_pageid = pageId, gs_ns = 0, gs_title = t,
                        gs_lat = coord_lat coords, gs_lon = coord_lon coords,
                        gs_dist = 0, gs_primary = ''true''\<rparr>],
                  [SearchCall query, CoordinatesCall pageId])))"

section \<open>The routes (server/routes.ts)\<close>

definition CACHE_EXPIRY_TIME :: int where
  "CACHE_EXPIRY_TIME = 1000 * 60 * 15"

record BoundingBox =
  north :: real
  south :: real
  east :: real
  west :: real

text \<open>
  \<^verbatim>\<open>z.number().min(lo).max(hi)\<close> accepts a finite number in the range and nothing else
  (zod refuses \<^verbatim>\<open>NaN\<close> as a number). \<^verbatim>\<open>boundsSchema.parse\<close> throws a \<^verbatim>\<open>ZodError\<close>
  when a field is refused. Its input is the four query parameters after
  \<^verbatim>\<open>parseFloat\<close>, which is \<^verbatim>\<open>NaN\<close> for a parameter that is missing or not a number.
\<close>

definition zNumberMinMax :: "real \<Rightarrow> real \<Rightarrow> number \<Rightarrow> bool" where
  "zNumberMinMax lo hi v = (case v of Finite x \<Rightarrow> lo \<le> x \<and> x \<le> hi | _ \<Rightarrow> False)"

definition boundsSchema :: "number \<Rightarrow> number \<Rightarrow> number \<Rightarrow> number \<Rightarrow> error + BoundingBox" where
  "boundsSchema n s e w =
     (case (n, s, e, w) of
        (Finite n', Finite s', Finite e', Finite w') \<Rightarrow>
          if zNumberMinMax (- 90) 90 n \<and> zNumberMinMax (- 90) 90 s \<and>
             zNumberMinMax (- 180) 180 e \<and> zNumberMinMax (- 180) 180 w
          then Inr \<lparr>north = n', south = s', east = e', west = w'\<rparr>
          else Inl ZodError
      | _ \<Rightarrow> Inl ZodError)"

text \<open>
  \<^verbatim>\<open>z.string().min(1)\<close> on \<^verbatim>\<open>req.query.q\<close>: \<open>None\<close> is a request whose \<^verbatim>\<open>q\<close> is
  missing or not a string.
\<close>

definition querySchema :: "string option \<Rightarrow> error + string" where
  "querySchema q =
     (case q of None \<Rightarrow> Inl ZodError
      | Some s \<Rightarrow> if 1 \<le> length s then Inr s else Inl ZodError)"

definition cacheKey :: "BoundingBox \<Rightarrow> string" where
  "cacheKey b =
     ''landmarks_'' @ toFixed (north b) 4 @ ''_'' @ toFixed (south b) 4 @ ''_'' @
     toFixed (east b) 4 @ ''_'' @ toFixed (west b) 4"

record GeocodeResult =
  geo_lat :: number
  geo_lon :: number
  display_name :: string

datatype ResponseBody =
    LandmarksJson "Landmark list"
  | GeocodeJson GeocodeResult
  | MessageJson string

datatype Response = Response (status: nat) (body: ResponseBody)

text \<open>
  The callback of \<^verbatim>\<open>landmarks.map\<close>: a detail fetch that throws leaves the landmark
  as it is. \<^verbatim>\<open>Promise.all\<close> starts the fetches in list order and keeps that order in
  its result. An optional field is \<open>None\<close> both when the property is missing and when it
  is \<^verbatim>\<open>undefined\<close>: \<^verbatim>\<open>res.json\<close> writes neither.
\<close>

definition withDetails :: "Upstream \<Rightarrow> Landmark \<Rightarrow> Landmark" where
  "withDetails up landmark =
     (case fst (fetchLandmarkDetails up (pageid landmark)) of
        Inr details \<Rightarrow>
          landmark\<lparr>description := details_extract details,
                   thumbnail := map_option source (details_thumbnail details)\<rparr>
      | Inl e \<Rightarrow> landmark)"

text \<open>
  \<^verbatim>\<open>GET /api/landmarks\<close>. \<open>now\<close> is the clock at the cache read, \<open>now'\<close> the clock at
  the write after the upstream calls. The result is the response, the store after the
  request and the upstream calls issued. Any exception ends in the handler's one
  \<^verbatim>\<open>catch\<close>, which answers 500.
\<close>

definition landmarksRoute ::
  "Upstream \<Rightarrow> int \<Rightarrow> int \<Rightarrow> Landmark list MemStorage \<Rightarrow>
   number \<Rightarrow> number \<Rightarrow> number \<Rightarrow> number \<Rightarrow>
   Response \<times> Landmark list MemStorage \<times> UpstreamCall list" where
  "landmarksRoute up now now' cache qn qs qe qw =
     (case boundsSchema qn qs qe qw of
        Inl e \<Rightarrow> (Response 500 (MessageJson ''Failed to fetch landmarks''), cache, [])
      | Inr b \<Rightarrow>
          (case getCachedData cache now (cacheKey b) of
             (Some cachedLandmarks, cache1) \<Rightarrow>
               (Response 200 (LandmarksJson cachedLandmarks), cache1, [])
           | (None, cache1) \<Rightarrow>
               (case fetchLandmarks up (north b) (south b) (east b) (west b) of
                  (Inl e, calls) \<Rightarrow>
                    (Response 500 (MessageJson ''Failed to fetch landmarks''), cache1, calls)
                | (Inr landmarks, calls) \<Rightarrow>
                    let landmarksWithDetails = map (withDetails up) landmarks;
                        calls' = calls @ concat (map (\<lambda>l. snd (fetchLandmarkDetails up (pageid l))) landmarks)
                    in case cacheData cache1 now' (cacheKey b) landmarksWithDetails
                              (now' + CACHE_EXPIRY_TIME) of
                         (Inl e, cache2) \<Rightarrow>
                           (Response 500 (MessageJson ''Failed to fetch landmarks''), cache2, calls')
                       | (Inr u, cache2) \<Rightarrow>
                           (Response 200 (LandmarksJson landmarksWithDetails), cache2, calls'))))"

text \<open>
  \<^verbatim>\<open>GET /api/geocode\<close>. \<^verbatim>\<open>parseFloat\<close>, which reads the coordinates of the
  Nominatim answer, is a parameter. The result is the response and the upstream calls
  issued.
\<close>

definition geocodeRoute ::
  "Upstream \<Rightarrow> (string \<Rightarrow> number) \<Rightarrow> string option \<Rightarrow> Response \<times> UpstreamCall list" where
  "geocodeRoute up parseFloat q =
     (case querySchema q of
        Inl e \<Rightarrow> (Response 500 (MessageJson ''Failed to geocode location''), [])
      | Inr q' \<Rightarrow>
          (case searchWikipedia up q' of
             (Inr (r # rs), calls) \<Rightarrow>
               (Response 200
                  (GeocodeJson \<lparr>geo_lat = Finite (gs_lat r), geo_lon = Finite (gs_lon r),
                                display_name = gs_title r\<rparr>),
                calls)
           | (wikiResults, calls) \<Rightarrow>
               (case nominatimSearch up q' of
                  Inl e \<Rightarrow>
                    (Response 500 (MessageJson ''Failed to geocode location''),
                     calls @ [NominatimCall q'])
                | Inr (Some (location # ls)) \<Rightarrow>
                    (Response 200
                       (GeocodeJson \<lparr>geo_lat = parseFloat (place_lat location),
                                     geo_lon = parseFloat (place_lon location),
                                     display_name = place_display_name location\<rparr>),
                     calls @ [NominatimCall q'])
                | Inr other \<Rightarrow>
                    (Response 404 (MessageJson ''Location not found''),
                     calls @ [NominatimCall q']))))"

section \<open>Notions of the specification\<close>

text \<open>
  The specification speaks of the value a coordinate rounds to at 4 decimal places and of
  valid bounding boxes. \<open>roundedTo f x\<close> is the multiple of \<open>10\<^sup>-\<^sup>f\<close> nearest to \<open>x\<close>,
  a tie going away from zero: the number whose digits \<^verbatim>\<open>toFixed\<close> writes. Two
  coordinates are in the same bucket when they round to the same value and, where that
  value is zero, are both negative or both not. A box is accepted when it passes
  \<^verbatim>\<open>boundsSchema\<close> and the guard of \<^verbatim>\<open>fetchLandmarks\<close>.
\<close>

definition roundedTo :: "nat \<Rightarrow> real \<Rightarrow> real" where
  "roundedTo f x =
     (if x < 0 then - of_int \<lfloor>- x * 10 ^ f + 1 / 2\<rfloor> / 10 ^ f
      else of_int \<lfloor>x * 10 ^ f + 1 / 2\<rfloor> / 10 ^ f)"

definition acceptedBounds :: "BoundingBox \<Rightarrow> bool" where
  "acceptedBounds b =
     (boundsSchema (Finite (north b)) (Finite (south b)) (Finite (east b)) (Finite (west b)) = Inr b
      \<and> \<not> (north b < south b \<or> east b < west b))"

definition sameBucket :: "real \<Rightarrow> real \<Rightarrow> bool" where
  "sameBucket x y =
     (roundedTo 4 x = roundedTo 4 y \<and> (if roundedTo 4 x = 0 then (x < 0) = (y < 0) else True))"

text \<open>
  The haversine formula in the words of the specification, angles in radians:
  \<open>a = sin\<^sup>2(\<Delta>lat/2) + cos(lat1) \<cdot> cos(lat2) \<cdot> sin\<^sup>2(\<Delta>lon/2)\<close>,
  \<open>c = 2 \<cdot> atan2(\<surd>a, \<surd>(1-a))\<close>, \<open>d = R \<cdot> c\<close> with \<open>R = 6371\<close>.
\<close>

definition haversineDistanceKm :: "real \<Rightarrow> real \<Rightarrow> real \<Rightarrow> real \<Rightarrow> real" where
  "haversineDistanceKm lat1 lon1 lat2 lon2 =
     (let dLat = (lat2 - lat1) * pi / 180;
          dLon = (lon2 - lon1) * pi / 180;
          a = (sin (dLat / 2))\<^sup>2 + cos (lat1 * pi / 180) * cos (lat2 * pi / 180) * (sin (dLon / 2))\<^sup>2;
          c = 2 * atan2 (sqrt a) (sqrt (1 - a))
      in 6371 * c)"

section \<open>Sample inputs\<close>

text \<open>
  Two upstreams for the concrete evaluations below: one whose answers never hold the
  part the client reads, and one with three landmarks (the detail request for page 2
  throws, page 3 is missing from its answer), one Wikipedia place and one Nominatim
  place.
\<close>

definition upstreamEmpty :: Upstream where
  "upstreamEmpty =
     \<lparr>geosearch = (\<lambda>la lo r. Inr None), pageDetails = (\<lambda>p. Inr None),
      wikiSearch = (\<lambda>q. Inr None), pageCoordinates = (\<lambda>p. Inr None),
      nominatimSearch = (\<lambda>q. Inr None)\<rparr>"

definition upstreamSample :: Upstream where
  "upstreamSample =
     \<lparr>geosearch = (\<lambda>la lo r. Inr (Some
        [\<lparr>gs_pageid = 1, gs_ns = 0, gs_title = ''A'', gs_lat = 1, gs_lon = 1, gs_dist = 100,
          gs_primary = []\<rparr>,
         \<lparr>gs_pageid = 2, gs_ns = 0, gs_title = ''B'', gs_lat = 2, gs_lon = 2, gs_dist = 200,
          gs_primary = []\<rparr>,
         \<lparr>gs_pageid = 3, gs_ns = 0, gs_title = ''C'', gs_lat = 3, gs_lon = 3, gs_dist = 300,
          gs_primary = []\<rparr>])),
      pageDetails = (\<lambda>p.
        if p = 1 then Inr (Some \<lparr>details_pageid = 1, details_title = ''A'',
                                 details_extract = Some ''about A'',
                                 details_thumbnail = Some \<lparr>source = ''a.png'', width = 500, height = 300\<rparr>\<rparr>)
        else if p = 2 then Inl AxiosError
        else Inr None),
      wikiSearch = (\<lambda>q. if q = ''Eiffel Tower'' then Inr (Some [7, 8]) else Inr (Some [])),
      pageCoordinates = (\<lambda>p.
        if p = 7 then Inr (Some (\<lparr>coord_lat = 48.8584, coord_lon = 2.2945\<rparr>, ''Eiffel Tower''))
        else Inr None),
      nominatimSearch = (\<lambda>q.
        if q = ''Louvre'' then
          Inr (Some [\<lparr>place_lat = ''48.8611'', place_lon = ''2.3364'',
                      place_display_name = ''Louvre, Paris''\<rparr>])
        else Inr (Some []))\<rparr>"

definition parseFloatSample :: "string \<Rightarrow> number" where
  "parseFloatSample s =
     (if s = ''48.8611'' then Finite 48.8611 else if s = ''2.3364'' then Finite 2.3364 else NaN)"

section \<open>Properties of the cache store\<close>

lemma fold_clear:
  "fold (\<lambda>(key, entry) c. if expires entry < now then AList.delete key c else c) xs c =
   filter (\<lambda>p. fst p \<notin> fst ` {q \<in> set xs. expires (snd q) < now}) c"
proof (induction xs arbitrary: c)
  case Nil
  show ?case by simp
next
  case (Cons x xs)
  obtain k e where x: "x = (k, e)" by (cases x)
  show ?case
  proof (cases "expires e < now")
    case True
    have "fold (\<lambda>(key, entry) c. if expires entry < now then AList.delete key c else c) (x # xs) c
        = filter (\<lambda>p. fst p \<notin> fst ` {q \<in> set xs. expires (snd q) < now}) (AList.delete k c)"
      using True by (simp add: x Cons.IH)
    also have "\<dots> = filter (\<lambda>p. fst p \<notin> insert k (fst ` {q \<in> set xs. expires (snd q) < now})) c"
      by (simp add: AList.delete_eq case_prod_unfold eq_commute[of k])
    also have "insert k (fst ` {q \<in> set xs. expires (snd q) < now})
        = fst ` {q \<in> set (x # xs). expires (snd q) < now}"
      using True by (force simp: x)
    finally show ?thesis .
  next
    case False
    have "{q \<in> set (x # xs). expires (snd q) < now} = {q \<in> set xs. expires (snd q) < now}"
      using False by (auto simp: x)
    then show ?thesis using False by (simp add: x Cons.IH)
  qed
qed

lemma clearExpiredCache_filter:
  assumes "distinct (map fst cache)"
  shows "clearExpiredCache cache now = filter (\<lambda>(key, entry). \<not> expires entry < now) cache"
proof -
  have "filter (\<lambda>p. fst p \<notin> fst ` {q \<in> set cache. expires (snd q) < now}) cache
      = filter (\<lambda>(key, entry). \<not> expires entry < now) cache"
  proof (rule filter_cong[OF refl])
    fix p assume p: "p \<in> set cache"
    have "fst p \<in> fst ` {q \<in> set cache. expires (snd q) < now} \<longleftrightarrow> expires (snd p) < now"
    proof
      assume "fst p \<in> fst ` {q \<in> set cache. expires (snd q) < now}"
      then obtain q where q: "q \<in> set cache" "expires (snd q) < now" "fst q = fst p" by auto
      from assms p q(1) q(3) have "q = p"
        by (metis eq_key_imp_eq_value prod.collapse)
      with q(2) show "expires (snd p) < now" by simp
    next
      assume "expires (snd p) < now"
      with p show "fst p \<in> fst ` {q \<in> set cache. expires (snd q) < now}" by auto
    qed
    then show "(fst p \<notin> fst ` {q \<in> set cache. expires (snd q) < now})
        = (case p of (key, entry) \<Rightarrow> \<not> expires entry < now)"
      by (cases p) auto
  qed
  then show ?thesis by (simp add: clearExpiredCache_def fold_clear)
qed

text \<open>The three operations keep the keys of the store pairwise different.\<close>

lemma distinct_clearExpiredCache:
  "distinct (map fst cache) \<Longrightarrow> distinct (map fst (clearExpiredCache cache now))"
  by (simp add: clearExpiredCache_filter distinct_map_filter)

lemma distinct_getCachedData:
  "distinct (map fst cache) \<Longrightarrow> distinct (map fst (snd (getCachedData cache now key)))"
  by (simp add: getCachedData_def distinct_delete split: option.splits)

lemma distinct_cacheData:
  "distinct (map fst cache) \<Longrightarrow> distinct (map fst (snd (cacheData cache now key v t)))"
  by (simp add: cacheData_def distinct_update)

text \<open>
  C2, as the code has it. After a successful \<^verbatim>\<open>cacheData(k, v, now + d)\<close> with \<open>0 < d\<close>,
  \<^verbatim>\<open>getCachedData(k)\<close> returns \<open>v\<close> and leaves the store as it is at every time up to
  and including \<open>now + d\<close>; at every later time it returns \<^verbatim>\<open>null\<close> and deletes the
  entry of \<open>k\<close>, leaving the other keys alone. The source compares
  \<^verbatim>\<open>Number(cacheEntry.expires) < Date.now()\<close>, strictly.
\<close>

theorem get_after_put:
  assumes "0 < d"
  shows "\<exists>cache'. cacheData cache now k v (now + d) = (Inr (), cache')
    \<and> (\<forall>t. t \<le> now + d \<longrightarrow> getCachedData cache' t k = (Some v, cache'))
    \<and> (\<forall>t. now + d < t \<longrightarrow>
          fst (getCachedData cache' t k) = None
          \<and> map_of (snd (getCachedData cache' t k)) k = None
          \<and> (\<forall>k'. k' \<noteq> k \<longrightarrow> map_of (snd (getCachedData cache' t k)) k' = map_of cache' k'))"
  using assms
  by (simp add: cacheData_def getCachedData_def update_conv' delete_conv')

theorem get_after_put_witness:
  "(0::int) < 5
   \<and> cacheData [] 100 ''k'' (7::nat) (100 + 5)
       = (Inr (), [(''k'', \<lparr>cache_id = 1, cache_key = ''k'', cache_value = 7, expires = 105\<rparr>)])
   \<and> fst (getCachedData (snd (cacheData [] 100 ''k'' (7::nat) (100 + 5))) 105 ''k'') = Some 7
   \<and> fst (getCachedData (snd (cacheData [] 100 ''k'' (7::nat) (100 + 5))) 106 ''k'') = None
   \<and> snd (getCachedData (snd (cacheData [] 100 ''k'' (7::nat) (100 + 5))) 106 ''k'') = []"
  using get_after_put [of 5 "[]" 100 "''k''" "7::nat"]
  by (simp add: cacheData_def getCachedData_def)

text \<open>
  C2 as the claim states it fails at the instant \<open>now = expiresAt\<close>: the entry written
  with expiry 105 is still served at time 105.
\<close>

theorem get_at_expiry_counterexample:
  "cacheData [] 100 ''k'' (7::nat) 105
     = (Inr (), [(''k'', \<lparr>cache_id = 1, cache_key = ''k'', cache_value = 7, expires = 105\<rparr>)])
   \<and> getCachedData [(''k'', \<lparr>cache_id = 1, cache_key = ''k'', cache_value = 7::nat, expires = 105\<rparr>)]
        105 ''k''
     = (Some 7, [(''k'', \<lparr>cache_id = 1, cache_key = ''k'', cache_value = 7, expires = 105\<rparr>)])"
  by (simp add: cacheData_def getCachedData_def)

text \<open>
  C6. \<^verbatim>\<open>cacheData(k, v, t)\<close> with \<open>t \<le> now\<close> throws the error "Expiry time must be a
  future timestamp." and the store is the one before the call.
\<close>

theorem put_past_expiry_rejected:
  "t \<le> now \<Longrightarrow> cacheData cache now k v t = (Inl InvalidExpiry, cache)"
  by (simp add: cacheData_def)

theorem put_past_expiry_rejected_witness:
  "(100::int) \<le> 100
   \<and> cacheData [(''a'', \<lparr>cache_id = 1, cache_key = ''a'', cache_value = 1::nat, expires = 500\<rparr>)]
        100 ''a'' 2 100
     = (Inl (Error ''Expiry time must be a future timestamp.''),
        [(''a'', \<lparr>cache_id = 1, cache_key = ''a'', cache_value = 1, expires = 500\<rparr>)])"
  using put_past_expiry_rejected
    [of 100 100 "[(''a'', \<lparr>cache_id = 1, cache_key = ''a'', cache_value = 1::nat, expires = 500\<rparr>)]"
        "''a''" 2]
  by (simp add: InvalidExpiry_def)

text \<open>
  C7. On a store whose keys are pairwise different (every \<^verbatim>\<open>Map\<close> is one),
  \<^verbatim>\<open>clearExpiredCache\<close> keeps exactly the entries with \<open>\<not> expires < now\<close>, in their order
  and unchanged, and a second run at the same \<open>now\<close> changes nothing.
\<close>

theorem sweep_exact_idempotent:
  assumes "distinct (map fst cache)"
  shows "clearExpiredCache cache now = filter (\<lambda>(key, entry). \<not> expires entry < now) cache
       \<and> clearExpiredCache (clearExpiredCache cache now) now = clearExpiredCache cache now"
proof -
  have a: "clearExpiredCache cache now = filter (\<lambda>(key, entry). \<not> expires entry < now) cache"
    by (rule clearExpiredCache_filter[OF assms])
  have "clearExpiredCache (clearExpiredCache cache now) now
      = filter (\<lambda>(key, entry). \<not> expires entry < now) (clearExpiredCache cache now)"
    by (rule clearExpiredCache_filter[OF distinct_clearExpiredCache[OF assms]])
  also have "\<dots> = clearExpiredCache cache now" by (simp add: a)
  finally show ?thesis using a by simp
qed

theorem sweep_exact_idempotent_witness:
  "distinct (map fst
      [(''a'', \<lparr>cache_id = 1, cache_key = ''a'', cache_value = 1::nat, expires = 5\<rparr>),
       (''b'', \<lparr>cache_id = 2, cache_key = ''b'', cache_value = 2, expires = 10\<rparr>),
       (''c'', \<lparr>cache_id = 3, cache_key = ''c'', cache_value = 3, expires = 20\<rparr>)])
   \<and> clearExpiredCache
        [(''a'', \<lparr>cache_id = 1, cache_key = ''a'', cache_value = 1::nat, expires = 5\<rparr>),
         (''b'', \<lparr>cache_id = 2, cache_key = ''b'', cache_value = 2, expires = 10\<rparr>),
         (''c'', \<lparr>cache_id = 3, cache_key = ''c'', cache_value = 3, expires = 20\<rparr>)] 10
      = [(''b'', \<lparr>cache_id = 2, cache_key = ''b'', cache_value = 2, expires = 10\<rparr>),
         (''c'', \<lparr>cache_id = 3, cache_key = ''c'', cache_value = 3, expires = 20\<rparr>)]
   \<and> clearExpiredCache
        [(''b'', \<lparr>cache_id = 2, cache_key = ''b'', cache_value = 2::nat, expires = 10\<rparr>),
         (''c'', \<lparr>cache_id = 3, cache_key = ''c'', cache_value = 3, expires = 20\<rparr>)] 10
      = [(''b'', \<lparr>cache_id = 2, cache_key = ''b'', cache_value = 2, expires = 10\<rparr>),
         (''c'', \<lparr>cache_id = 3, cache_key = ''c'', cache_value = 3, expires = 20\<rparr>)]"
  using sweep_exact_idempotent
    [of "[(''a'', \<lparr>cache_id = 1, cache_key = ''a'', cache_value = 1::nat, expires = 5\<rparr>),
          (''b'', \<lparr>cache_id = 2, cache_key = ''b'', cache_value = 2, expires = 10\<rparr>),
          (''c'', \<lparr>cache_id = 3, cache_key = ''c'', cache_value = 3, expires = 20\<rparr>)]" 10]
  by (simp add: clearExpiredCache_def AList.delete_eq)

text \<open>
  C9. A value that \<^verbatim>\<open>getCachedData\<close> returns is the value of the entry stored under
  the key, and that entry's expiry is not before \<open>now\<close>; an entry that \<^verbatim>\<open>cacheData\<close>
  stores has an expiry after \<open>now\<close>.
\<close>

theorem freshness:
  "(getCachedData cache now k = (Some v, cache') \<longrightarrow>
      (\<exists>e. map_of cache k = Some e \<and> cache_value e = v \<and> now \<le> expires e) \<and> cache' = cache)
   \<and> (cacheData cache now k v t = (Inr u, cache'') \<longrightarrow>
      now < t \<and> (\<exists>e. map_of cache'' k = Some e \<and> cache_value e = v \<and> expires e = t))"
  by (auto simp: getCachedData_def cacheData_def update_conv' split: option.splits if_splits)

theorem freshness_witness:
  "getCachedData [(''k'', \<lparr>cache_id = 1, cache_key = ''k'', cache_value = 7::nat, expires = 105\<rparr>)]
      105 ''k''
     = (Some 7, [(''k'', \<lparr>cache_id = 1, cache_key = ''k'', cache_value = 7, expires = 105\<rparr>)])
   \<and> (\<exists>e. map_of [(''k'', \<lparr>cache_id = 1, cache_key = ''k'', cache_value = 7::nat, expires = 105\<rparr>)] ''k''
            = Some e \<and> cache_value e = 7 \<and> 105 \<le> expires e)
   \<and> cacheData [] 100 ''k'' (7::nat) 105
     = (Inr (), [(''k'', \<lparr>cache_id = 1, cache_key = ''k'', cache_value = 7, expires = 105\<rparr>)])
   \<and> (100::int) < 105"
  using freshness
    [of "[(''k'', \<lparr>cache_id = 1, cache_key = ''k'', cache_value = 7::nat, expires = 105\<rparr>)]"
        105 "''k''" 7
        "[(''k'', \<lparr>cache_id = 1, cache_key = ''k'', cache_value = 7::nat, expires = 105\<rparr>)]"]
  by (simp add: getCachedData_def cacheData_def)

section \<open>Properties of the cache key\<close>

text \<open>
  The integer that \<^const>\<open>toFixed\<close> takes is the one ECMAScript asks for: no integer is
  closer to \<open>y = x \<cdot> 10\<^sup>f\<close>, and an integer just as close is smaller.
\<close>

lemma toFixed_nearest:
  fixes y :: real and m :: int
  defines "n \<equiv> \<lfloor>y + 1 / 2\<rfloor>"
  shows "\<bar>of_int n - y\<bar> \<le> \<bar>of_int m - y\<bar>"
    and "\<bar>of_int m - y\<bar> = \<bar>of_int n - y\<bar> \<Longrightarrow> m \<le> n"
proof -
  have lo: "of_int n \<le> y + 1 / 2" and hi: "y + 1 / 2 < of_int n + 1"
    unfolding n_def by linarith+
  show "\<bar>of_int n - y\<bar> \<le> \<bar>of_int m - y\<bar>"
  proof (cases "m \<le> n")
    case True
    show ?thesis
    proof (cases "m = n")
      case True
      then show ?thesis by simp
    next
      case False
      with \<open>m \<le> n\<close> have "m \<le> n - 1" by simp
      then have "(of_int m :: real) \<le> of_int n - 1" by (metis of_int_1 of_int_diff of_int_le_iff)
      with lo hi show ?thesis by linarith
    qed
  next
    case False
    then have "n + 1 \<le> m" by simp
    then have "(of_int n :: real) + 1 \<le> of_int m" by (metis of_int_1 of_int_add of_int_le_iff)
    with lo hi show ?thesis by linarith
  qed
  show "m \<le> n" if "\<bar>of_int m - y\<bar> = \<bar>of_int n - y\<bar>"
  proof (rule ccontr)
    assume "\<not> m \<le> n"
    then have "n + 1 \<le> m" by simp
    then have "(of_int n :: real) + 1 \<le> of_int m" by (metis of_int_1 of_int_add of_int_le_iff)
    with lo hi that show False by linarith
  qed
qed

lemma replicate_numeral: "replicate (numeral k) x = x # replicate (pred_numeral k) x"
  by (simp add: numeral_eq_Suc)

lemma fixedDigits_0_4: "fixedDigits 0 4 = ''0.0000''"
  by (simp add: fixedDigits_def Let_def replicate_numeral)

lemma fixedDigits_10000_4: "fixedDigits 10000 4 = ''1.0000''"
  apply (simp add: fixedDigits_def Let_def)
  apply (simp add: decimalDigits.simps digitChar_def)
  done

lemma roundedTo_neg: "x < 0 \<Longrightarrow> roundedTo f x \<le> 0"
proof -
  assume "x < 0"
  then have "0 \<le> (- x) * 10 ^ f" by (intro mult_nonneg_nonneg) auto
  then have "0 \<le> - x * 10 ^ f + 1 / 2" by simp
  then have "0 \<le> \<lfloor>- x * 10 ^ f + 1 / 2\<rfloor>" by simp
  then show ?thesis using \<open>x < 0\<close> by (simp add: roundedTo_def)
qed

lemma roundedTo_nonneg: "\<not> x < 0 \<Longrightarrow> 0 \<le> roundedTo f x"
proof -
  assume "\<not> x < 0"
  then have "0 \<le> x * 10 ^ f" by (intro mult_nonneg_nonneg) auto
  then have "0 \<le> x * 10 ^ f + 1 / 2" by simp
  then have "0 \<le> \<lfloor>x * 10 ^ f + 1 / 2\<rfloor>" by simp
  then show ?thesis using \<open>\<not> x < 0\<close> by (simp add: roundedTo_def)
qed

lemma toFixed_eq:
  assumes r: "roundedTo f x = roundedTo f y" and s: "(x < 0) = (y < 0)"
  shows "toFixed x f = toFixed y f"
proof (cases "x < 0")
  case True
  with s have y: "y < 0" by simp
  from r True y have "\<lfloor>- x * 10 ^ f + 1 / 2\<rfloor> = \<lfloor>- y * 10 ^ f + 1 / 2\<rfloor>"
    by (simp add: roundedTo_def)
  then show ?thesis using True y by (simp add: toFixed_def)
next
  case False
  with s have y: "\<not> y < 0" by simp
  from r False y have "\<lfloor>x * 10 ^ f + 1 / 2\<rfloor> = \<lfloor>y * 10 ^ f + 1 / 2\<rfloor>"
    by (simp add: roundedTo_def)
  then show ?thesis using False y by (simp add: toFixed_def)
qed

lemma sameBucket_toFixed: "sameBucket x y \<Longrightarrow> toFixed x 4 = toFixed y 4"
proof -
  assume b: "sameBucket x y"
  then have r: "roundedTo 4 x = roundedTo 4 y" by (simp add: sameBucket_def)
  have "(x < 0) = (y < 0)"
  proof (cases "roundedTo 4 x = 0")
    case True
    with b show ?thesis by (simp add: sameBucket_def)
  next
    case False
    show ?thesis
    proof (cases "x < 0")
      case True
      with False roundedTo_neg[of x 4] have "roundedTo 4 x < 0" by simp
      with r roundedTo_nonneg[of y 4] have "y < 0" by force
      with True show ?thesis by simp
    next
      case nx: False
      with False roundedTo_nonneg[of x 4] have "0 < roundedTo 4 x" by simp
      with r roundedTo_neg[of y 4] have "\<not> y < 0" by force
      with nx show ?thesis by simp
    qed
  qed
  with r show ?thesis by (rule toFixed_eq)
qed

text \<open>
  C1, as the code has it. Two boxes get the same key when each pair of coordinates rounds
  to the same 4-decimal value and, where that value is zero, the two coordinates are
  both negative or both not: \<^verbatim>\<open>toFixed\<close> writes a negative number that rounds to zero
  as \<^verbatim>\<open>-0.0000\<close>.
\<close>

theorem cacheKey_coalesces:
  assumes "sameBucket (north b1) (north b2)" and "sameBucket (south b1) (south b2)"
    and "sameBucket (east b1) (east b2)" and "sameBucket (west b1) (west b2)"
  shows "cacheKey b1 = cacheKey b2"
  using assms by (simp add: cacheKey_def sameBucket_toFixed)

theorem cacheKey_coalesces_witness:
  "sameBucket 51.51004 51.51001 \<and> sameBucket 51.50001 51.50004
   \<and> sameBucket 0.00001 0.00002 \<and> sameBucket (- 0.10003) (- 0.10001)
   \<and> cacheKey \<lparr>north = 51.51004, south = 51.50001, east = 0.00001, west = - 0.10003\<rparr>
     = cacheKey \<lparr>north = 51.51001, south = 51.50004, east = 0.00002, west = - 0.10001\<rparr>"
proof -
  have h: "sameBucket 51.51004 51.51001" "sameBucket 51.50001 51.50004"
    "sameBucket 0.00001 0.00002" "sameBucket (- 0.10003) (- 0.10001)"
    by (simp_all add: sameBucket_def roundedTo_def)
  show ?thesis
    using h cacheKey_coalesces
      [of "\<lparr>north = 51.51004, south = 51.50001, east = 0.00001, west = - 0.10003\<rparr>"
          "\<lparr>north = 51.51001, south = 51.50004, east = 0.00002, west = - 0.10001\<rparr>"]
    by simp
qed

text \<open>
  C1 as the claim states it fails: the two boxes below pass every check of the route,
  their coordinates round to the same four values (the west edges \<open>- 2\<^sup>-\<^sup>1\<^sup>7\<close> and
  \<open>2\<^sup>-\<^sup>1\<^sup>7\<close> both round to 0), and their keys differ.
\<close>

theorem cacheKey_negative_zero_counterexample:
  "acceptedBounds \<lparr>north = 1, south = 0, east = 1 / 131072, west = - (1 / 131072)\<rparr>
   \<and> acceptedBounds \<lparr>north = 1, south = 0, east = 1 / 131072, west = 1 / 131072\<rparr>
   \<and> roundedTo 4 (- (1 / 131072)) = roundedTo 4 (1 / 131072)
   \<and> cacheKey \<lparr>north = 1, south = 0, east = 1 / 131072, west = - (1 / 131072)\<rparr>
       = ''landmarks_1.0000_0.0000_0.0000_-0.0000''
   \<and> cacheKey \<lparr>north = 1, south = 0, east = 1 / 131072, west = 1 / 131072\<rparr>
       = ''landmarks_1.0000_0.0000_0.0000_0.0000''
   \<and> cacheKey \<lparr>north = 1, south = 0, east = 1 / 131072, west = - (1 / 131072)\<rparr>
       \<noteq> cacheKey \<lparr>north = 1, south = 0, east = 1 / 131072, west = 1 / 131072\<rparr>"
  by (simp add: acceptedBounds_def boundsSchema_def zNumberMinMax_def roundedTo_def
      cacheKey_def toFixed_def fixedDigits_0_4 fixedDigits_10000_4)

section \<open>Properties of the geocode route\<close>

lemma trim_blank: "\<forall>c \<in> set q. isWhiteSpace c \<Longrightarrow> trim q = []"
proof -
  assume "\<forall>c \<in> set q. isWhiteSpace c"
  then have d: "dropWhile isWhiteSpace q = []" by simp
  show ?thesis unfolding trim_def d by simp
qed

lemma searchWikipedia_calls:
  "c \<in> set (snd (searchWikipedia up q)) \<Longrightarrow> c = SearchCall q \<or> (\<exists>p. c = CoordinatesCall p)"
  by (auto simp: searchWikipedia_def split: if_splits sum.splits option.splits list.splits)

text \<open>
  C4. For a query that is not empty: when the Wikipedia search returns a non-empty list,
  the route answers 200 with its first match and the calls issued are those of the
  Wikipedia search, none of them to Nominatim; when the Wikipedia search throws or
  returns the empty list, the route calls Nominatim next; and when Nominatim then has no
  match, the route answers 404.
\<close>

theorem geocode_fallback_chain:
  assumes "q \<noteq> []"
  shows "(\<forall>r rs calls. searchWikipedia up q = (Inr (r # rs), calls) \<longrightarrow>
            geocodeRoute up pf (Some q)
              = (Response 200
                   (GeocodeJson \<lparr>geo_lat = Finite (gs_lat r), geo_lon = Finite (gs_lon r),
                                 display_name = gs_title r\<rparr>), calls)
            \<and> (\<forall>q'. NominatimCall q' \<notin> set calls))
       \<and> (\<forall>calls. (\<exists>e. searchWikipedia up q = (Inl e, calls)) \<or>
                   searchWikipedia up q = (Inr [], calls) \<longrightarrow>
            snd (geocodeRoute up pf (Some q)) = calls @ [NominatimCall q]
            \<and> (nominatimSearch up q = Inr None \<or> nominatimSearch up q = Inr (Some []) \<longrightarrow>
                 fst (geocodeRoute up pf (Some q))
                   = Response 404 (MessageJson ''Location not found'')))"
proof (intro conjI allI impI)
  fix r rs calls
  assume h: "searchWikipedia up q = (Inr (r # rs), calls)"
  show "geocodeRoute up pf (Some q)
      = (Response 200
           (GeocodeJson \<lparr>geo_lat = Finite (gs_lat r), geo_lon = Finite (gs_lon r),
                         display_name = gs_title r\<rparr>), calls)"
    using assms h by (simp add: geocodeRoute_def querySchema_def Suc_le_eq)
  fix q'
  show "NominatimCall q' \<notin> set calls"
    using searchWikipedia_calls[of "NominatimCall q'" up q] h by auto
next
  fix calls
  assume h: "(\<exists>e. searchWikipedia up q = (Inl e, calls)) \<or> searchWikipedia up q = (Inr [], calls)"
  show "snd (geocodeRoute up pf (Some q)) = calls @ [NominatimCall q]"
    using assms h
    by (auto simp: geocodeRoute_def querySchema_def Suc_le_eq
        split: sum.splits option.splits list.splits)
  assume n: "nominatimSearch up q = Inr None \<or> nominatimSearch up q = Inr (Some [])"
  show "fst (geocodeRoute up pf (Some q)) = Response 404 (MessageJson ''Location not found'')"
    using assms h n
    by (auto simp: geocodeRoute_def querySchema_def Suc_le_eq
        split: sum.splits option.splits list.splits)
qed

lemma searchWikipedia_sample:
  "searchWikipedia upstreamSample ''Eiffel Tower''
     = (Inr [\<lparr>gs_pageid = 7, gs_ns = 0, gs_title = ''Eiffel Tower'', gs_lat = 48.8584,
               gs_lon = 2.2945, gs_dist = 0, gs_primary = ''true''\<rparr>],
        [SearchCall ''Eiffel Tower'', CoordinatesCall 7])"
  by (simp add: searchWikipedia_def upstreamSample_def trim_def isWhiteSpace_def)

lemma searchWikipedia_empty:
  "searchWikipedia upstreamEmpty ''Nowhere'' = (Inr [], [SearchCall ''Nowhere''])"
  by (simp add: searchWikipedia_def upstreamEmpty_def trim_def isWhiteSpace_def)

theorem geocode_fallback_chain_witness:
  "''Eiffel Tower'' \<noteq> []
   \<and> searchWikipedia upstreamSample ''Eiffel Tower''
     = (Inr [\<lparr>gs_pageid = 7, gs_ns = 0, gs_title = ''Eiffel Tower'', gs_lat = 48.8584,
               gs_lon = 2.2945, gs_dist = 0, gs_primary = ''true''\<rparr>],
        [SearchCall ''Eiffel Tower'', CoordinatesCall 7])
   \<and> geocodeRoute upstreamSample parseFloatSample (Some ''Eiffel Tower'')
     = (Response 200
          (GeocodeJson \<lparr>geo_lat = Finite 48.8584, geo_lon = Finite 2.2945,
                        display_name = ''Eiffel Tower''\<rparr>),
        [SearchCall ''Eiffel Tower'', CoordinatesCall 7])
   \<and> ''Nowhere'' \<noteq> []
   \<and> searchWikipedia upstreamEmpty ''Nowhere'' = (Inr [], [SearchCall ''Nowhere''])
   \<and> nominatimSearch upstreamEmpty ''Nowhere'' = Inr None
   \<and> snd (geocodeRoute upstreamEmpty parseFloatSample (Some ''Nowhere''))
     = [SearchCall ''Nowhere'', NominatimCall ''Nowhere'']
   \<and> fst (geocodeRoute upstreamEmpty parseFloatSample (Some ''Nowhere''))
     = Response 404 (MessageJson ''Location not found'')"
  using geocode_fallback_chain [of "''Eiffel Tower''" upstreamSample parseFloatSample]
    geocode_fallback_chain [of "''Nowhere''" upstreamEmpty parseFloatSample]
  by (simp add: searchWikipedia_sample searchWikipedia_empty) (simp add: upstreamEmpty_def)

text \<open>
  When the Wikipedia search has no hit, the match of Nominatim is returned, its
  coordinates read by \<^verbatim>\<open>parseFloat\<close>.
\<close>

lemma geocode_nominatim_sample:
  "geocodeRoute upstreamSample parseFloatSample (Some ''Louvre'')
     = (Response 200
          (GeocodeJson \<lparr>geo_lat = Finite 48.8611, geo_lon = Finite 2.3364,
                        display_name = ''Louvre, Paris''\<rparr>),
        [SearchCall ''Louvre'', NominatimCall ''Louvre''])"
  by (simp add: geocodeRoute_def querySchema_def searchWikipedia_def upstreamSample_def
      trim_def isWhiteSpace_def parseFloatSample_def)

text \<open>
  C10. A query that is not empty and holds only white space passes \<^verbatim>\<open>querySchema\<close>;
  \<^verbatim>\<open>searchWikipedia\<close> throws "Search query cannot be empty." before any request; the
  route swallows that error and calls Nominatim, whose answer decides the response.
\<close>

theorem blank_query_reaches_nominatim:
  assumes "q \<noteq> []" and "\<forall>c \<in> set q. isWhiteSpace c"
  shows "querySchema (Some q) = Inr q
       \<and> searchWikipedia up q = (Inl EmptyQuery, [])
       \<and> geocodeRoute up pf (Some q)
         = (case nominatimSearch up q of
              Inl e \<Rightarrow> Response 500 (MessageJson ''Failed to geocode location'')
            | Inr None \<Rightarrow> Response 404 (MessageJson ''Location not found'')
            | Inr (Some []) \<Rightarrow> Response 404 (MessageJson ''Location not found'')
            | Inr (Some (location # ls)) \<Rightarrow>
                Response 200
                  (GeocodeJson \<lparr>geo_lat = pf (place_lat location),
                                geo_lon = pf (place_lon location),
                                display_name = place_display_name location\<rparr>),
            [NominatimCall q])"
proof -
  have a: "querySchema (Some q) = Inr q"
    using assms(1) by (simp add: querySchema_def Suc_le_eq)
  have b: "searchWikipedia up q = (Inl EmptyQuery, [])"
    using trim_blank[OF assms(2)] by (simp add: searchWikipedia_def)
  show ?thesis
    by (simp add: a b geocodeRoute_def split: sum.splits option.splits list.splits)
qed

theorem blank_query_reaches_nominatim_witness:
  "'' '' \<noteq> [] \<and> isWhiteSpace CHR '' ''
   \<and> querySchema (Some '' '') = Inr '' ''
   \<and> searchWikipedia upstreamSample '' '' = (Inl (Error ''Search query cannot be empty.''), [])
   \<and> geocodeRoute upstreamSample parseFloatSample (Some '' '')
     = (Response 404 (MessageJson ''Location not found''), [NominatimCall '' ''])"
  using blank_query_reaches_nominatim [of "'' ''" upstreamSample parseFloatSample]
  by (simp add: isWhiteSpace_def EmptyQuery_def) (simp add: upstreamSample_def)

section \<open>Properties of the landmarks route\<close>

lemma fetchLandmarks_inverted:
  "n < s \<or> e < w \<Longrightarrow> fetchLandmarks up n s e w = (Inl InvalidBounds, [])"
  by (simp add: fetchLandmarks_def)

lemma boundsSchema_Finite:
  "boundsSchema (Finite n) (Finite s) (Finite e) (Finite w) = Inr b
   \<Longrightarrow> b = \<lparr>north = n, south = s, east = e, west = w\<rparr>"
  by (simp add: boundsSchema_def split: if_splits)

text \<open>
  C3, as the code has it. A request whose bounds have \<open>north < south\<close> or \<open>east < west\<close>
  issues no upstream call; unless the store still serves an entry under the key of
  these bounds, the response is the 500 of the handler's \<^verbatim>\<open>catch\<close>. No path of the
  handler answers with a status between 400 and 499.
\<close>

theorem inverted_bounds_no_upstream_call:
  assumes "n < s \<or> e < w"
  shows "snd (snd (landmarksRoute up now now' cache (Finite n) (Finite s) (Finite e) (Finite w))) = []
    \<and> (fst (getCachedData cache now (cacheKey \<lparr>north = n, south = s, east = e, west = w\<rparr>)) = None
        \<longrightarrow> fst (landmarksRoute up now now' cache (Finite n) (Finite s) (Finite e) (Finite w))
              = Response 500 (MessageJson ''Failed to fetch landmarks''))"
proof (cases "boundsSchema (Finite n) (Finite s) (Finite e) (Finite w)")
  case (Inl err)
  then show ?thesis by (simp add: landmarksRoute_def)
next
  case (Inr b)
  then have b: "b = \<lparr>north = n, south = s, east = e, west = w\<rparr>" by (rule boundsSchema_Finite)
  have f: "fetchLandmarks up (north b) (south b) (east b) (west b) = (Inl InvalidBounds, [])"
    using assms by (simp add: b fetchLandmarks_inverted)
  obtain r cache1 where g: "getCachedData cache now (cacheKey b) = (r, cache1)"
    by (cases "getCachedData cache now (cacheKey b)")
  show ?thesis
    using Inr f g by (cases r) (simp_all add: landmarksRoute_def b)
qed

theorem inverted_bounds_no_upstream_call_witness:
  "((0::real) < 1 \<or> (0::real) < 0)
   \<and> fst (getCachedData ([] :: Landmark list MemStorage) 1000
        (cacheKey \<lparr>north = 0, south = 1, east = 0, west = 0\<rparr>)) = None
   \<and> landmarksRoute upstreamSample 1000 1000 [] (Finite 0) (Finite 1) (Finite 0) (Finite 0)
     = (Response 500 (MessageJson ''Failed to fetch landmarks''), [], [])"
  using inverted_bounds_no_upstream_call [of 0 1 0 0 upstreamSample 1000 1000 "[]"]
  by (simp add: getCachedData_def landmarksRoute_def boundsSchema_def zNumberMinMax_def
      fetchLandmarks_def)

text \<open>
  C3 as the claim states it fails: with a healthy upstream and an empty store, the
  request \<open>north = 0, south = 1\<close> passes \<^verbatim>\<open>boundsSchema\<close> and is answered with status 500.
\<close>

theorem inverted_bounds_status_counterexample:
  "boundsSchema (Finite 0) (Finite 1) (Finite 0) (Finite 0)
     = Inr \<lparr>north = 0, south = 1, east = 0, west = 0\<rparr>
   \<and> north \<lparr>north = 0, south = 1, east = 0, west = 0\<rparr>
       < south \<lparr>north = 0, south = 1, east = 0, west = 0\<rparr>
   \<and> status (fst (landmarksRoute upstreamSample 1000 1000 []
        (Finite 0) (Finite 1) (Finite 0) (Finite 0))) = 500"
  by (simp add: getCachedData_def landmarksRoute_def boundsSchema_def zNumberMinMax_def
      fetchLandmarks_def)

text \<open>
  The store can hold a live entry under the key of inverted bounds: the key of the
  accepted box \<open>north = 0.00002, south = 0.00001\<close> is also the key of the inverted box
  \<open>north = 0.00001, south = 0.00002\<close>, which is then answered from the store with
  status 200.
\<close>

lemma inverted_bounds_served_from_store:
  "fst (snd (landmarksRoute upstreamEmpty 0 0 []
       (Finite (1 / 50000)) (Finite (1 / 100000)) (Finite 0) (Finite 0)))
     = [(''landmarks_0.0000_0.0000_0.0000_0.0000'',
         \<lparr>cache_id = 1, cache_key = ''landmarks_0.0000_0.0000_0.0000_0.0000'',
          cache_value = [], expires = 900000\<rparr>)]
   \<and> landmarksRoute upstreamSample 1 1
       [(''landmarks_0.0000_0.0000_0.0000_0.0000'',
         \<lparr>cache_id = 1, cache_key = ''landmarks_0.0000_0.0000_0.0000_0.0000'',
          cache_value = [], expires = 900000\<rparr>)]
       (Finite (1 / 100000)) (Finite (1 / 50000)) (Finite 0) (Finite 0)
     = (Response 200 (LandmarksJson []),
        [(''landmarks_0.0000_0.0000_0.0000_0.0000'',
          \<lparr>cache_id = 1, cache_key = ''landmarks_0.0000_0.0000_0.0000_0.0000'',
           cache_value = [], expires = 900000\<rparr>)],
        [])"
  by (simp add: landmarksRoute_def boundsSchema_def zNumberMinMax_def cacheKey_def toFixed_def
      fixedDigits_0_4 getCachedData_def fetchLandmarks_def Let_def upstreamEmpty_def
      cacheData_def CACHE_EXPIRY_TIME_def)

lemma withDetails_keeps:
  "pageid (withDetails up l) = pageid l \<and> title (withDetails up l) = title l
   \<and> lat (withDetails up l) = lat l \<and> lon (withDetails up l) = lon l
   \<and> distance (withDetails up l) = distance l"
  by (simp add: withDetails_def split: sum.splits)

lemma withDetails_details:
  "(case fst (fetchLandmarkDetails up (pageid l)) of
      Inl err \<Rightarrow> description (withDetails up l) = description l
                 \<and> thumbnail (withDetails up l) = thumbnail l
    | Inr details \<Rightarrow> description (withDetails up l) = details_extract details
                 \<and> thumbnail (withDetails up l) = map_option source (details_thumbnail details))"
  by (simp add: withDetails_def split: sum.splits)

lemma fetchLandmarks_bare:
  assumes "fst (fetchLandmarks up n s e w) = Inr landmarks" and "l \<in> set landmarks"
  shows "description l = None \<and> thumbnail l = None"
  using assms
  by (auto simp: fetchLandmarks_def Let_def toLandmark_def
      split: if_splits sum.splits option.splits)

lemma cacheData_route_succeeds:
  "fst (cacheData cache now' key v (now' + CACHE_EXPIRY_TIME)) = Inr ()"
  by (simp add: cacheData_def CACHE_EXPIRY_TIME_def)

lemma landmarksRoute_miss:
  assumes "boundsSchema qn qs qe qw = Inr b"
    and "fst (getCachedData cache now (cacheKey b)) = None"
    and "fst (fetchLandmarks up (north b) (south b) (east b) (west b)) = Inr landmarks"
  shows "fst (landmarksRoute up now now' cache qn qs qe qw)
       = Response 200 (LandmarksJson (map (withDetails up) landmarks))"
proof -
  obtain cache1 where g: "getCachedData cache now (cacheKey b) = (None, cache1)"
    using assms(2) by (cases "getCachedData cache now (cacheKey b)") auto
  obtain calls where f:
    "fetchLandmarks up (north b) (south b) (east b) (west b) = (Inr landmarks, calls)"
    using assms(3) by (cases "fetchLandmarks up (north b) (south b) (east b) (west b)") auto
  obtain cache2 where c:
    "cacheData cache1 now' (cacheKey b) (map (withDetails up) landmarks)
       (now' + CACHE_EXPIRY_TIME) = (Inr (), cache2)"
    using cacheData_route_succeeds[of cache1 now' "cacheKey b" "map (withDetails up) landmarks"]
    by (cases "cacheData cache1 now' (cacheKey b) (map (withDetails up) landmarks)
       (now' + CACHE_EXPIRY_TIME)") auto
  show ?thesis
    by (simp add: landmarksRoute_def assms(1) g f c Let_def)
qed

text \<open>
  C5, as the code has it. When the bounds pass, the store has no live entry for them and
  the geosearch returns \<open>n\<close> landmarks, the route answers 200 with \<open>n\<close> landmarks in
  the same order, each with the \<^verbatim>\<open>pageid\<close>, \<^verbatim>\<open>title\<close>, \<^verbatim>\<open>lat\<close>, \<^verbatim>\<open>lon\<close> and
  \<^verbatim>\<open>distance\<close> of the geosearch. A landmark whose detail fetch throws has neither
  \<^verbatim>\<open>description\<close> nor \<^verbatim>\<open>thumbnail\<close>; a landmark whose detail fetch returns has
  the \<^verbatim>\<open>extract\<close> and the thumbnail source of the answer, either of which may be
  missing there.
\<close>

theorem detail_failures_isolated:
  assumes "boundsSchema qn qs qe qw = Inr b"
    and "fst (getCachedData cache now (cacheKey b)) = None"
    and "fst (fetchLandmarks up (north b) (south b) (east b) (west b)) = Inr landmarks"
  shows "\<exists>ls. fst (landmarksRoute up now now' cache qn qs qe qw) = Response 200 (LandmarksJson ls)
    \<and> length ls = length landmarks
    \<and> (\<forall>i<length landmarks.
          pageid (ls ! i) = pageid (landmarks ! i) \<and> title (ls ! i) = title (landmarks ! i)
          \<and> lat (ls ! i) = lat (landmarks ! i) \<and> lon (ls ! i) = lon (landmarks ! i)
          \<and> distance (ls ! i) = distance (landmarks ! i)
          \<and> (case fst (fetchLandmarkDetails up (pageid (landmarks ! i))) of
                Inl err \<Rightarrow> description (ls ! i) = None \<and> thumbnail (ls ! i) = None
              | Inr details \<Rightarrow>
                  description (ls ! i) = details_extract details
                  \<and> thumbnail (ls ! i) = map_option source (details_thumbnail details)))"
proof (intro exI conjI allI impI)
  show "fst (landmarksRoute up now now' cache qn qs qe qw)
      = Response 200 (LandmarksJson (map (withDetails up) landmarks))"
    by (rule landmarksRoute_miss[OF assms])
  show "length (map (withDetails up) landmarks) = length landmarks" by simp
next
  fix i assume i: "i < length landmarks"
  then have m: "map (withDetails up) landmarks ! i = withDetails up (landmarks ! i)" by simp
  from i have "landmarks ! i \<in> set landmarks" by simp
  from fetchLandmarks_bare[OF assms(3) this]
  have bare: "description (landmarks ! i) = None" "thumbnail (landmarks ! i) = None" by simp_all
  show "pageid (map (withDetails up) landmarks ! i) = pageid (landmarks ! i)"
    "title (map (withDetails up) landmarks ! i) = title (landmarks ! i)"
    "lat (map (withDetails up) landmarks ! i) = lat (landmarks ! i)"
    "lon (map (withDetails up) landmarks ! i) = lon (landmarks ! i)"
    "distance (map (withDetails up) landmarks ! i) = distance (landmarks ! i)"
    by (simp_all add: m withDetails_keeps)
  show "case fst (fetchLandmarkDetails up (pageid (landmarks ! i))) of
          Inl err \<Rightarrow> description (map (withDetails up) landmarks ! i) = None
                     \<and> thumbnail (map (withDetails up) landmarks ! i) = None
        | Inr details \<Rightarrow>
            description (map (withDetails up) landmarks ! i) = details_extract details
            \<and> thumbnail (map (withDetails up) landmarks ! i)
                = map_option source (details_thumbnail details)"
    using withDetails_details[of up "landmarks ! i"] bare
    by (simp add: m split: sum.splits)
qed

lemma fetchLandmarks_sample:
  "fst (fetchLandmarks upstreamSample 1 0 1 0)
     = Inr [\<lparr>pageid = 1, title = ''A'', lat = 1, lon = 1, description = None,
              thumbnail = None, distance = Some (1 / 10)\<rparr>,
            \<lparr>pageid = 2, title = ''B'', lat = 2, lon = 2, description = None,
              thumbnail = None, distance = Some (1 / 5)\<rparr>,
            \<lparr>pageid = 3, title = ''C'', lat = 3, lon = 3, description = None,
              thumbnail = None, distance = Some (3 / 10)\<rparr>]"
  by (simp add: fetchLandmarks_def Let_def upstreamSample_def toLandmark_def)

lemma fetchLandmarkDetails_sample:
  "fst (fetchLandmarkDetails upstreamSample 1)
     = Inr \<lparr>details_pageid = 1, details_title = ''A'', details_extract = Some ''about A'',
            details_thumbnail = Some \<lparr>source = ''a.png'', width = 500, height = 300\<rparr>\<rparr>"
  "fst (fetchLandmarkDetails upstreamSample 2) = Inl AxiosError"
  "fst (fetchLandmarkDetails upstreamSample 3)
     = Inr \<lparr>details_pageid = 3, details_title = [], details_extract = None,
            details_thumbnail = None\<rparr>"
  by (simp_all add: fetchLandmarkDetails_def upstreamSample_def)

lemma landmarksRoute_sample:
  "fst (landmarksRoute upstreamSample 1000 2000 [] (Finite 1) (Finite 0) (Finite 1) (Finite 0))
     = Response 200 (LandmarksJson
         [\<lparr>pageid = 1, title = ''A'', lat = 1, lon = 1, description = Some ''about A'',
           thumbnail = Some ''a.png'', distance = Some (1 / 10)\<rparr>,
          \<lparr>pageid = 2, title = ''B'', lat = 2, lon = 2, description = None,
           thumbnail = None, distance = Some (1 / 5)\<rparr>,
          \<lparr>pageid = 3, title = ''C'', lat = 3, lon = 3, description = None,
           thumbnail = None, distance = Some (3 / 10)\<rparr>])"
proof -
  have b: "boundsSchema (Finite 1) (Finite 0) (Finite 1) (Finite 0)
      = Inr \<lparr>north = 1, south = 0, east = 1, west = 0\<rparr>"
    by (simp add: boundsSchema_def zNumberMinMax_def)
  have g: "fst (getCachedData ([] :: Landmark list MemStorage) 1000
      (cacheKey \<lparr>north = 1, south = 0, east = 1, west = 0\<rparr>)) = None"
    by (simp add: getCachedData_def)
  have f: "fst (fetchLandmarks upstreamSample
      (north \<lparr>north = 1, south = 0, east = 1, west = 0\<rparr>)
      (south \<lparr>north = 1, south = 0, east = 1, west = 0\<rparr>)
      (east \<lparr>north = 1, south = 0, east = 1, west = 0\<rparr>)
      (west \<lparr>north = 1, south = 0, east = 1, west = 0\<rparr>))
     = Inr [\<lparr>pageid = 1, title = ''A'', lat = 1, lon = 1, description = None,
              thumbnail = None, distance = Some (1 / 10)\<rparr>,
            \<lparr>pageid = 2, title = ''B'', lat = 2, lon = 2, description = None,
              thumbnail = None, distance = Some (1 / 5)\<rparr>,
            \<lparr>pageid = 3, title = ''C'', lat = 3, lon = 3, description = None,
              thumbnail = None, distance = Some (3 / 10)\<rparr>]"
    using fetchLandmarks_sample by simp
  show ?thesis
    unfolding landmarksRoute_miss[OF b g f]
    by (simp add: withDetails_def fetchLandmarkDetails_sample)
qed

theorem detail_failures_isolated_witness:
  "boundsSchema (Finite 1) (Finite 0) (Finite 1) (Finite 0)
     = Inr \<lparr>north = 1, south = 0, east = 1, west = 0\<rparr>
   \<and> fst (getCachedData ([] :: Landmark list MemStorage) 1000
        (cacheKey \<lparr>north = 1, south = 0, east = 1, west = 0\<rparr>)) = None
   \<and> fst (fetchLandmarks upstreamSample 1 0 1 0)
     = Inr [\<lparr>pageid = 1, title = ''A'', lat = 1, lon = 1, description = None,
              thumbnail = None, distance = Some (1 / 10)\<rparr>,
            \<lparr>pageid = 2, title = ''B'', lat = 2, lon = 2, description = None,
              thumbnail = None, distance = Some (1 / 5)\<rparr>,
            \<lparr>pageid = 3, title = ''C'', lat = 3, lon = 3, description = None,
              thumbnail = None, distance = Some (3 / 10)\<rparr>]
   \<and> fst (fetchLandmarkDetails upstreamSample 2) = Inl AxiosError
   \<and> (\<exists>ls. fst (landmarksRoute upstreamSample 1000 2000 []
               (Finite 1) (Finite 0) (Finite 1) (Finite 0)) = Response 200 (LandmarksJson ls)
          \<and> length ls = 3 \<and> pageid (ls ! 1) = 2 \<and> title (ls ! 1) = ''B''
          \<and> description (ls ! 1) = None \<and> thumbnail (ls ! 1) = None)"
proof -
  let ?found =
    "[\<lparr>pageid = 1, title = ''A'', lat = 1, lon = 1, description = None,
       thumbnail = None, distance = Some (1 / 10)\<rparr>,
      \<lparr>pageid = 2, title = ''B'', lat = 2, lon = 2, description = None,
       thumbnail = None, distance = Some (1 / 5)\<rparr>,
      \<lparr>pageid = 3, title = ''C'', lat = 3, lon = 3, description = None,
       thumbnail = None, distance = Some (3 / 10)\<rparr>]"
  have b: "boundsSchema (Finite 1) (Finite 0) (Finite 1) (Finite 0)
      = Inr \<lparr>north = 1, south = 0, east = 1, west = 0\<rparr>"
    by (simp add: boundsSchema_def zNumberMinMax_def)
  have g: "fst (getCachedData ([] :: Landmark list MemStorage) 1000
      (cacheKey \<lparr>north = 1, south = 0, east = 1, west = 0\<rparr>)) = None"
    by (simp add: getCachedData_def)
  have f: "fst (fetchLandmarks upstreamSample
      (north \<lparr>north = 1, south = 0, east = 1, west = 0\<rparr>)
      (south \<lparr>north = 1, south = 0, east = 1, west = 0\<rparr>)
      (east \<lparr>north = 1, south = 0, east = 1, west = 0\<rparr>)
      (west \<lparr>north = 1, south = 0, east = 1, west = 0\<rparr>)) = Inr ?found"
    using fetchLandmarks_sample by simp
  from detail_failures_isolated[OF b g f, of 2000]
  obtain ls where r:
    "fst (landmarksRoute upstreamSample 1000 2000 [] (Finite 1) (Finite 0) (Finite 1) (Finite 0))
       = Response 200 (LandmarksJson ls)"
    and len: "length ls = length ?found"
    and each: "\<forall>i<length ?found.
          pageid (ls ! i) = pageid (?found ! i) \<and> title (ls ! i) = title (?found ! i)
          \<and> lat (ls ! i) = lat (?found ! i) \<and> lon (ls ! i) = lon (?found ! i)
          \<and> distance (ls ! i) = distance (?found ! i)
          \<and> (case fst (fetchLandmarkDetails upstreamSample (pageid (?found ! i))) of
                Inl err \<Rightarrow> description (ls ! i) = None \<and> thumbnail (ls ! i) = None
              | Inr details \<Rightarrow>
                  description (ls ! i) = details_extract details
                  \<and> thumbnail (ls ! i) = map_option source (details_thumbnail details))"
    by (elim exE conjE)
  from each[rule_format, of 1] have one:
    "pageid (ls ! 1) = pageid (?found ! 1) \<and> title (ls ! 1) = title (?found ! 1)
     \<and> (case fst (fetchLandmarkDetails upstreamSample (pageid (?found ! 1))) of
                Inl err \<Rightarrow> description (ls ! 1) = None \<and> thumbnail (ls ! 1) = None
              | Inr details \<Rightarrow>
                  description (ls ! 1) = details_extract details
                  \<and> thumbnail (ls ! 1) = map_option source (details_thumbnail details))"
    by simp
  then have "pageid (ls ! 1) = 2 \<and> title (ls ! 1) = ''B''
      \<and> description (ls ! 1) = None \<and> thumbnail (ls ! 1) = None"
    by (simp add: fetchLandmarkDetails_sample)
  with r len have "\<exists>ls. fst (landmarksRoute upstreamSample 1000 2000 []
               (Finite 1) (Finite 0) (Finite 1) (Finite 0)) = Response 200 (LandmarksJson ls)
          \<and> length ls = 3 \<and> pageid (ls ! 1) = 2 \<and> title (ls ! 1) = ''B''
          \<and> description (ls ! 1) = None \<and> thumbnail (ls ! 1) = None"
    by (intro exI[of _ ls]) simp
  with b g fetchLandmarks_sample fetchLandmarkDetails_sample(2) show ?thesis
    by (intro conjI)
qed

text \<open>
  C5 as the claim states it fails in one direction: a landmark can lack both fields
  although its detail fetch did not fail. For page 3 the upstream answers without the
  page, \<^verbatim>\<open>fetchLandmarkDetails\<close> returns \<^verbatim>\<open>{ pageid, title: "" }\<close>, and the third
  landmark of the response has neither \<^verbatim>\<open>description\<close> nor \<^verbatim>\<open>thumbnail\<close>.
\<close>

theorem missing_details_without_failure_counterexample:
  "fst (fetchLandmarkDetails upstreamSample 3)
     = Inr \<lparr>details_pageid = 3, details_title = [], details_extract = None,
            details_thumbnail = None\<rparr>
   \<and> fst (landmarksRoute upstreamSample 1000 2000 [] (Finite 1) (Finite 0) (Finite 1) (Finite 0))
     = Response 200 (LandmarksJson
         [\<lparr>pageid = 1, title = ''A'', lat = 1, lon = 1, description = Some ''about A'',
           thumbnail = Some ''a.png'', distance = Some (1 / 10)\<rparr>,
          \<lparr>pageid = 2, title = ''B'', lat = 2, lon = 2, description = None,
           thumbnail = None, distance = Some (1 / 5)\<rparr>,
          \<lparr>pageid = 3, title = ''C'', lat = 3, lon = 3, description = None,
           thumbnail = None, distance = Some (3 / 10)\<rparr>])"
  using fetchLandmarkDetails_sample(3) landmarksRoute_sample by simp

section \<open>Properties of the landmark search\<close>

lemma haversineDistance_spec:
  "haversineDistance lat1 lon1 lat2 lon2 = haversineDistanceKm lat1 lon1 lat2 lon2"
  by (simp add: haversineDistance_def haversineDistanceKm_def Let_def deg2rad_def
      power2_eq_square mult.assoc)

lemma atan2_sin_cos:
  assumes "0 \<le> t" and "t \<le> pi / 2"
  shows "atan2 (sin t) (cos t) = t"
proof (cases "t = pi / 2")
  case True
  show ?thesis unfolding True by (simp add: atan2_def)
next
  case False
  with assms have t: "- (pi / 2) < t" "t < pi / 2" by simp_all
  then have c: "0 < cos t" by (rule cos_gt_zero_pi)
  have "arctan (sin t / cos t) = t"
    using arctan_tan[OF t] by (simp add: tan_def)
  with c show ?thesis by (simp add: atan2_def)
qed

lemma haversine_angle:
  assumes "0 \<le> t" and "t \<le> pi / 2"
  shows "2 * atan2 (sqrt (sin t * sin t)) (sqrt (1 - sin t * sin t)) = 2 * t"
proof -
  have s: "0 \<le> sin t" using assms by (intro sin_ge_zero) simp_all
  have c: "0 \<le> cos t" using assms by (intro cos_ge_zero) simp_all
  have "1 - sin t * sin t = cos t * cos t"
    using sin_cos_squared_add3[of t] by linarith
  then have "sqrt (1 - sin t * sin t) = cos t" using c by simp
  moreover have "sqrt (sin t * sin t) = sin t" using s by simp
  ultimately show ?thesis using atan2_sin_cos[OF assms] by simp
qed

lemma sin_half_square:
  fixes x :: real
  shows "sin (x / 2) * sin (x / 2) = (1 - cos x) / 2"
proof -
  define h where "h = sin (x / 2) * sin (x / 2)"
  have "cos (2 * (x / 2)) = 1 - 2 * (sin (x / 2))\<^sup>2" by (rule cos_double_sin)
  moreover have "2 * (x / 2) = x" by simp
  ultimately have "cos x = 1 - 2 * h"
    by (simp only: power2_eq_square h_def)
  then have "h = (1 - cos x) / 2" by simp
  then show ?thesis by (simp only: h_def)
qed

lemma deg2rad_quarter_turn:
  assumes "- 90 \<le> x" and "x \<le> 90"
  shows "- (pi / 2) \<le> deg2rad x" and "deg2rad x \<le> pi / 2"
proof -
  have "(- 90) * (pi / 180) \<le> x * (pi / 180)"
    using assms(1) by (intro mult_right_mono) simp_all
  then show "- (pi / 2) \<le> deg2rad x" by (simp add: deg2rad_def)
  have "x * (pi / 180) \<le> 90 * (pi / 180)"
    using assms(2) by (intro mult_right_mono) simp_all
  then show "deg2rad x \<le> pi / 2" by (simp add: deg2rad_def)
qed

text \<open>
  For latitudes that passed \<^verbatim>\<open>boundsSchema\<close> the quantity \<open>a\<close> of the haversine formula
  lies between 0 and 1, so both square roots are taken of numbers that are not negative.
\<close>

lemma haversine_a_range:
  fixes lat1 lat2 dLon :: real
  assumes "- 90 \<le> lat1" "lat1 \<le> 90" "- 90 \<le> lat2" "lat2 \<le> 90"
  defines "a \<equiv> sin (deg2rad (lat2 - lat1) / 2) * sin (deg2rad (lat2 - lat1) / 2) +
      cos (deg2rad lat1) * cos (deg2rad lat2) * sin (dLon / 2) * sin (dLon / 2)"
  shows "0 \<le> a \<and> a \<le> 1"
proof -
  let ?p = "deg2rad lat1" and ?q = "deg2rad lat2"
  define A where "A = cos ?p * cos ?q"
  define B where "B = sin ?p * sin ?q"
  define S where "S = sin (dLon / 2) * sin (dLon / 2)"
  have p: "- (pi / 2) \<le> ?p" "?p \<le> pi / 2" using assms(1,2) by (rule deg2rad_quarter_turn)+
  have q: "- (pi / 2) \<le> ?q" "?q \<le> pi / 2" using assms(3,4) by (rule deg2rad_quarter_turn)+
  have cp: "0 \<le> cos ?p" using p by (rule cos_ge_zero)
  have cq: "0 \<le> cos ?q" using q by (rule cos_ge_zero)
  have A0: "0 \<le> A" unfolding A_def using cp cq by (rule mult_nonneg_nonneg)
  have S0: "0 \<le> S" unfolding S_def by simp
  have S1: "S \<le> 1"
    unfolding S_def
    using sin_cos_squared_add3[of "dLon / 2"] zero_le_square[of "cos (dLon / 2)"] by linarith
  have AS0: "0 \<le> A * S" using A0 S0 by (rule mult_nonneg_nonneg)
  have AS1: "A * S \<le> A" using mult_left_mono[OF S1 A0] by simp
  have d: "deg2rad (lat2 - lat1) = ?q - ?p" by (simp add: deg2rad_def left_diff_distrib)
  have a_eq: "a = (1 - cos (?q - ?p)) / 2 + A * S"
    unfolding a_def d sin_half_square[of "?q - ?p"] A_def S_def by (simp only: mult.assoc)
  have m: "cos (?q - ?p) = A + B"
    unfolding A_def B_def by (simp add: cos_diff mult.commute)
  have "cos (?q + ?p) = A - B"
    unfolding A_def B_def by (simp add: cos_add mult.commute)
  moreover have "cos (?q + ?p) \<le> 1" by simp
  ultimately have AB: "A - B \<le> 1" by simp
  have "cos (?q - ?p) \<le> 1" by simp
  with m have AB': "A + B \<le> 1" by simp
  from a_eq m have a2: "2 * a = 1 - (A + B) + 2 * (A * S)" by simp
  from a2 AS0 AB' have "0 \<le> a" by linarith
  moreover from a2 AS1 AB have "a \<le> 1" by linarith
  ultimately show ?thesis by simp
qed

text \<open>
  Along a meridian, and along the equator, the distance is the arc: the Earth radius
  times the angle in radians.
\<close>

lemma haversineDistance_meridian:
  assumes "lat1 \<le> lat2" and "lat2 - lat1 \<le> 180"
  shows "haversineDistance lat1 lon1 lat2 lon1 = 6371 * deg2rad (lat2 - lat1)"
proof -
  let ?t = "deg2rad (lat2 - lat1) / 2"
  have t: "0 \<le> ?t" "?t \<le> pi / 2"
    using assms by (simp_all add: deg2rad_def)
  have "haversineDistance lat1 lon1 lat2 lon1
      = 6371 * (2 * atan2 (sqrt (sin ?t * sin ?t)) (sqrt (1 - sin ?t * sin ?t)))"
    by (simp add: haversineDistance_def Let_def deg2rad_def)
  also have "\<dots> = 6371 * (2 * ?t)" by (simp only: haversine_angle[OF t])
  finally show ?thesis by simp
qed

lemma haversineDistance_equator:
  assumes "lon1 \<le> lon2" and "lon2 - lon1 \<le> 180"
  shows "haversineDistance 0 lon1 0 lon2 = 6371 * deg2rad (lon2 - lon1)"
proof -
  let ?t = "deg2rad (lon2 - lon1) / 2"
  have t: "0 \<le> ?t" "?t \<le> pi / 2"
    using assms by (simp_all add: deg2rad_def)
  have "haversineDistance 0 lon1 0 lon2
      = 6371 * (2 * atan2 (sqrt (sin ?t * sin ?t)) (sqrt (1 - sin ?t * sin ?t)))"
    by (simp add: haversineDistance_def Let_def deg2rad_def)
  also have "\<dots> = 6371 * (2 * ?t)" by (simp only: haversine_angle[OF t])
  finally show ?thesis by simp
qed

text \<open>
  C8. For bounds that pass the guard of \<^verbatim>\<open>fetchLandmarks\<close>, the one request issued is
  the geosearch around \<open>((north + south) / 2, (east + west) / 2)\<close> with the radius
  \<open>min (max d\<^sub>n d\<^sub>e * 1000) 10000\<close>, where \<open>d\<^sub>n\<close> and \<open>d\<^sub>e\<close> are the haversine distances
  (formula of the specification, Earth radius 6371 km) from the centre to the north edge
  and to the east edge.
\<close>

theorem geosearch_center_radius:
  assumes "s \<le> n" and "w \<le> e"
  shows "snd (fetchLandmarks up n s e w)
       = [GeosearchCall ((n + s) / 2) ((e + w) / 2)
            (min (max (haversineDistanceKm ((n + s) / 2) ((e + w) / 2) n ((e + w) / 2))
                      (haversineDistanceKm ((n + s) / 2) ((e + w) / 2) ((n + s) / 2) e) * 1000)
                 10000)]"
  using assms
  by (simp add: fetchLandmarks_def Let_def MAX_RADIUS_def haversineDistance_spec
      split: sum.splits option.splits)

lemma radius_small_box:
  "min (max (haversineDistance 0 (1 / 100) (1 / 100) (1 / 100))
            (haversineDistance 0 (1 / 100) 0 (2 / 100)) * 1000) 10000 = 6371 * pi / 18"
proof -
  have a: "haversineDistance 0 (1 / 100) (1 / 100) (1 / 100) = 6371 * deg2rad (1 / 100)"
    using haversineDistance_meridian[of 0 "1 / 100" "1 / 100"] by simp
  have b: "haversineDistance 0 (1 / 100) 0 (2 / 100) = 6371 * deg2rad (1 / 100)"
    using haversineDistance_equator[of "1 / 100" "2 / 100"] by simp
  have "6371 * pi / 18 \<le> 10000" using pi_less_4 by simp
  then show ?thesis unfolding a b by (simp add: deg2rad_def)
qed

lemma radius_large_box:
  "min (max (haversineDistance 0 1 1 1) (haversineDistance 0 1 0 2) * 1000) 10000 = 10000"
proof -
  have a: "haversineDistance 0 1 1 1 = 6371 * deg2rad 1"
    using haversineDistance_meridian[of 0 1 1] by simp
  have b: "haversineDistance 0 1 0 2 = 6371 * deg2rad 1"
    using haversineDistance_equator[of 1 2] by simp
  have "10000 \<le> 6371 * pi / 180 * 1000" using pi_ge_two by simp
  then show ?thesis unfolding a b by (simp add: deg2rad_def)
qed

theorem geosearch_center_radius_witness:
  "(- (1 / 100) :: real) \<le> 1 / 100 \<and> (0 :: real) \<le> 2 / 100
   \<and> snd (fetchLandmarks upstreamSample (1 / 100) (- (1 / 100)) (2 / 100) 0)
     = [GeosearchCall 0 (1 / 100) (6371 * pi / 18)]
   \<and> (- 1 :: real) \<le> 1 \<and> (0 :: real) \<le> 2
   \<and> snd (fetchLandmarks upstreamSample 1 (- 1) 2 0) = [GeosearchCall 0 1 10000]"
  using geosearch_center_radius [of "- (1 / 100)" "1 / 100" 0 "2 / 100" upstreamSample]
    geosearch_center_radius [of "- 1" 1 0 2 upstreamSample]
    radius_small_box radius_large_box
  by (simp add: haversineDistance_spec)

end
